theory Spec2Isabelle
  imports Main "HOL-Library.Word" "HOL-Library.Sublist"
begin

unbundle bit_operations_syntax

section \<open>The IAM default client (defaultclient.go)\<close>

text \<open>
  A shallow embedding of \<^verbatim>\<open>defaultclient.go\<close> of package \<^verbatim>\<open>iam\<close>. A method with
  receiver \<^verbatim>\<open>client *DefaultClient\<close> takes the client's state and returns the state it
  leaves behind. The file calls methods of the package that are declared in other
  files: they are parameters of the functions that call them. Embedded are \<^verbatim>\<open>NewDefaultClient\<close>,
  \<^verbatim>\<open>StartLocalValidation\<close>, \<^verbatim>\<open>ValidateAndParseClaims\<close>, \<^verbatim>\<open>ValidatePermission\<close>,
  \<^verbatim>\<open>HealthCheck\<close>, \<^verbatim>\<open>ValidateAudience\<close> and \<^verbatim>\<open>getClientInformation\<close>.
\<close>

subsection \<open>Errors\<close>

text \<open>
  Go errors are values. \<^verbatim>\<open>errRoleNotFound\<close> is the package's sentinel, compared by
  identity in \<^verbatim>\<open>ValidatePermission\<close>; no other error value is equal to it.
  \<^verbatim>\<open>errors_New m\<close> stands for \<^verbatim>\<open>errors.New(m)\<close> and for the errors of the standard
  library, \<^verbatim>\<open>fmt_Errorf m e\<close> for \<^verbatim>\<open>fmt.Errorf(m + "%v", e)\<close>, and
  \<^verbatim>\<open>fmt_Errorf_status c b\<close> for the message of \<^verbatim>\<open>getClientInformation\<close> that formats
  a status code and a response body.
\<close>

datatype error =
    errRoleNotFound
  | errors_New string
  | fmt_Errorf string error
  | fmt_Errorf_status int string

subsection \<open>Configuration\<close>

text \<open>\<^verbatim>\<open>time.Duration\<close> is a signed 64-bit count of nanoseconds.\<close>

type_synonym Duration = "64 word"

definition Second :: Duration where
  "Second = 1000000000"

definition Minute :: Duration where
  "Minute = 60 * Second"

definition defaultRoleCacheTime :: Duration where
  "defaultRoleCacheTime = 60 * Second"

definition defaultJWKSRefreshInterval :: Duration where
  "defaultJWKSRefreshInterval = 60 * Second"

definition defaultRevocationListRefreshInterval :: Duration where
  "defaultRevocationListRefreshInterval = 60 * Second"

definition baseURIKey :: string where
  "baseURIKey = ''baseURI''"

definition baseURICacheExpiration :: Duration where
  "baseURICacheExpiration = 1 * Minute"

record Config =
  BaseURL :: string
  ClientID :: string
  ClientSecret :: string
  RolesCacheExpirationTime :: Duration
  JWKSRefreshInterval :: Duration
  RevocationListRefreshInterval :: Duration

text \<open>
  \<^verbatim>\<open>NewDefaultClient\<close> receives a \<^verbatim>\<open>*Config\<close> and the client keeps that pointer, so
  the caller and the client share one object. The store maps an address to the
  \<^verbatim>\<open>Config\<close> found there; an address outside its domain is the nil pointer.
\<close>

type_synonym addr = nat
type_synonym store = "addr \<rightharpoonup> Config"

subsection \<open>Claims and permissions\<close>

text \<open>
  Modelled from the spec: the types \<^verbatim>\<open>Permission\<close>, \<^verbatim>\<open>JWTBan\<close> and \<^verbatim>\<open>JWTClaims\<close>
  are declared in another file of the package. The records have the fields that
  \<^verbatim>\<open>defaultclient.go\<close> reads, with the types section 3 of the specification gives them.
  \<^verbatim>\<open>Audience\<close> is a slice that may be nil: \<open>None\<close> is the nil slice.
  \<^verbatim>\<open>IssuedAt\<close> is a whole number of seconds since the epoch, which the conversion
  \<^verbatim>\<open>int64(claims.IssuedAt)\<close> of line 171 leaves as it is.
\<close>

record Permission =
  Resource :: string
  Action :: int

record JWTBan =
  Ban :: string

record JWTClaims =
  Subject :: string
  IssuedAt :: int
  Namespace :: string
  Roles :: "string list"
  Permissions :: "Permission list"
  Audience :: "string list option"
  Scope :: string
  JusticeFlags :: int
  Bans :: "JWTBan list"

subsection \<open>The cache of github.com/patrickmn/go-cache\<close>

text \<open>
  The cache stores values of type \<^verbatim>\<open>interface{}\<close>; the client stores a base URI (a
  string) in one cache and role permissions in the other.
\<close>

datatype iface =
    nil_iface
  | string_iface string
  | permissions_iface "Permission list"

text \<open>
  An item is a value and the time it expires at, in nanoseconds since the epoch; 0 is
  an item that never expires. The time of a call is the parameter \<open>now\<close>.
\<close>

record Cache =
  defaultExpiration :: Duration
  cleanupInterval :: Duration
  items :: "string \<rightharpoonup> iface \<times> int"

definition cache_New :: "Duration \<Rightarrow> Duration \<Rightarrow> Cache" where
  "cache_New d ci = \<lparr>defaultExpiration = d, cleanupInterval = ci, items = Map.empty\<rparr>"

definition cache_Get :: "Cache \<Rightarrow> string \<Rightarrow> int \<Rightarrow> iface \<times> bool" where
  "cache_Get c k now =
     (case items c k of
        None \<Rightarrow> (nil_iface, False)
      | Some (x, e) \<Rightarrow> if 0 < e \<and> e < now then (nil_iface, False) else (x, True))"

text \<open>\<^verbatim>\<open>cache.DefaultExpiration\<close> is the duration 0: the cache's own default is used.\<close>

definition cache_Set :: "Cache \<Rightarrow> string \<Rightarrow> iface \<Rightarrow> Duration \<Rightarrow> int \<Rightarrow> Cache" where
  "cache_Set c k x d now =
     (let d' = (if d = 0 then defaultExpiration c else d);
          e = (if 0 < sint d' then now + sint d' else 0)
      in c\<lparr>items := (items c)(k \<mapsto> (x, e))\<rparr>)"

subsection \<open>HTTP\<close>

record Request =
  Method :: string
  URL :: string
  Header :: "(string \<times> string) list"

text \<open>\<^verbatim>\<open>ReadBody\<close> is what \<^verbatim>\<open>ioutil.ReadAll(resp.Body)\<close> returns for the response.\<close>

record Response =
  StatusCode :: int
  ReadBody :: "error + string"

subsection \<open>The client\<close>

typedecl rsaPublicKey
typedecl bloomFilter

record DefaultClient =
  keys :: "string \<rightharpoonup> rsaPublicKey"
  clientAccessToken :: string
  config :: addr
  rolePermissionCache :: Cache
  revocationFilter :: "bloomFilter option"
  revokedUsers :: "string \<rightharpoonup> int"
  tokenRefreshActive :: bool
  localValidationActive :: bool
  jwksRefreshError :: "error option"
  revocationListRefreshError :: "error option"
  tokenRefreshError :: "error option"
  remoteTokenValidation :: "string \<Rightarrow> bool \<times> error option"
  baseURICache :: Cache
  httpClient :: "Request \<Rightarrow> error + Response"

subsection \<open>NewDefaultClient\<close>

text \<open>
  The three assignments of lines 95 to 103 write through the pointer \<open>p\<close>. Reading
  through a nil pointer panics: the result is \<open>None\<close>. \<open>validateAccessToken\<close> is the
  method of that name (declared in another file) and \<open>defaultHTTP\<close> is the \<^verbatim>\<open>Do\<close> of
  \<^verbatim>\<open>&http.Client{}\<close>.
\<close>

definition NewDefaultClient ::
  "(string \<Rightarrow> bool \<times> error option) \<Rightarrow> (Request \<Rightarrow> error + Response) \<Rightarrow>
   store \<Rightarrow> addr \<Rightarrow> (store \<times> DefaultClient) option" where
  "NewDefaultClient validateAccessToken defaultHTTP h p =
     (case h p of
        None \<Rightarrow> None
      | Some c0 \<Rightarrow>
          let c1 = (if sint (RolesCacheExpirationTime c0) \<le> 0
                    then c0\<lparr>RolesCacheExpirationTime := defaultRoleCacheTime\<rparr> else c0);
              c2 = (if sint (JWKSRefreshInterval c1) \<le> 0
                    then c1\<lparr>JWKSRefreshInterval := defaultJWKSRefreshInterval\<rparr> else c1);
              c3 = (if sint (RevocationListRefreshInterval c2) \<le> 0
                    then c2\<lparr>RevocationListRefreshInterval :=
                              defaultRevocationListRefreshInterval\<rparr> else c2)
          in Some (h(p \<mapsto> c3),
               \<lparr>keys = Map.empty,
                clientAccessToken = [],
                config = p,
                rolePermissionCache =
                  cache_New (RolesCacheExpirationTime c3) (2 * RolesCacheExpirationTime c3),
                revocationFilter = None,
                revokedUsers = Map.empty,
                tokenRefreshActive = False,
                localValidationActive = False,
                jwksRefreshError = None,
                revocationListRefreshError = None,
                tokenRefreshError = None,
                remoteTokenValidation = validateAccessToken,
                baseURICache = cache_New baseURICacheExpiration baseURICacheExpiration,
                httpClient = defaultHTTP\<rparr>))"

subsection \<open>HealthCheck\<close>

definition HealthCheck :: "DefaultClient \<Rightarrow> bool" where
  "HealthCheck client =
     (if jwksRefreshError client \<noteq> None then False
      else if revocationListRefreshError client \<noteq> None then False
      else if tokenRefreshActive client \<and> tokenRefreshError client \<noteq> None then False
      else True)"

subsection \<open>StartLocalValidation and ValidateAndParseClaims\<close>

text \<open>
  \<^verbatim>\<open>getJWKS\<close> and \<^verbatim>\<open>getRevocationList\<close> are methods declared in another file: each
  returns its error (\<open>None\<close> is nil) and the client as it leaves it. The two goroutines
  started at lines 149 and 150 run beside the caller and are not part of the call.
\<close>

definition StartLocalValidation ::
  "(DefaultClient \<Rightarrow> error option \<times> DefaultClient) \<Rightarrow>
   (DefaultClient \<Rightarrow> error option \<times> DefaultClient) \<Rightarrow>
   DefaultClient \<Rightarrow> error option \<times> DefaultClient" where
  "StartLocalValidation getJWKS getRevocationList client =
     (case getJWKS client of
        (Some err, c1) \<Rightarrow> (Some (fmt_Errorf ''unable to get JWKS: '' err), c1)
      | (None, c1) \<Rightarrow>
          (case getRevocationList c1 of
             (Some err, c2) \<Rightarrow> (Some (fmt_Errorf ''unable to get revocation list: '' err), c2)
           | (None, c2) \<Rightarrow> (None, c2\<lparr>localValidationActive := True\<rparr>)))"

text \<open>
  \<^verbatim>\<open>validateJWT\<close>, \<^verbatim>\<open>userRevoked\<close> and \<^verbatim>\<open>tokenRevoked\<close> are methods declared
  in another file and are parameters; they read the client. \<^verbatim>\<open>validateJWT\<close> returns
  claims or an error. The result of
  \<^verbatim>\<open>ValidateAndParseClaims\<close> is \<open>Inl\<close> of the error with nil claims, or \<open>Inr\<close> of
  the claims with a nil error.
\<close>

definition ValidateAndParseClaims ::
  "(DefaultClient \<Rightarrow> string \<Rightarrow> error + JWTClaims) \<Rightarrow>
   (DefaultClient \<Rightarrow> string \<Rightarrow> int \<Rightarrow> bool) \<Rightarrow> (DefaultClient \<Rightarrow> string \<Rightarrow> bool) \<Rightarrow>
   DefaultClient \<Rightarrow> string \<Rightarrow> error + JWTClaims" where
  "ValidateAndParseClaims validateJWT userRevoked tokenRevoked client accessToken =
     (if \<not> localValidationActive client
      then Inl (errors_New
        ''local validation is not active, activate by calling StartLocalValidation()'')
      else
        (case validateJWT client accessToken of
           Inl err \<Rightarrow> Inl (fmt_Errorf ''unable to verify JWT : '' err)
         | Inr claims \<Rightarrow>
             if userRevoked client (Subject claims) (IssuedAt claims)
             then Inl (errors_New ''user has been revoked'')
             else if tokenRevoked client accessToken
             then Inl (errors_New ''token has been revoked'')
             else Inr claims))"

text \<open>
  Modelled from the spec: the method \<^verbatim>\<open>userRevoked\<close> is declared in another file, and
  nothing in \<^verbatim>\<open>defaultclient.go\<close> compares an issued-at time with a revocation time.
  The specification gives the rule twice. Section 4.1, step 4, fails the token when the
  subject is in the exact revoked-subject map with a revocation timestamp greater than
  or equal to the issued-at time, and glosses this as revoking the tokens issued before
  that timestamp; section 8 rejects a token with an issued-at time less than the
  timestamp and accepts one with an issued-at time greater than or equal to it. The two
  agree when the two times differ and disagree when they are equal: what the method
  answers there is the parameter \<open>boundary\<close>, true for the first reading and false for
  the second. A subject that is not in the map is not revoked. Both times are seconds
  since the epoch.
\<close>

definition userRevoked :: "bool \<Rightarrow> DefaultClient \<Rightarrow> string \<Rightarrow> int \<Rightarrow> bool" where
  "userRevoked boundary client userID issuedAt =
     (case revokedUsers client userID of
        None \<Rightarrow> False
      | Some revokedAt \<Rightarrow> issuedAt < revokedAt \<or> (issuedAt = revokedAt \<and> boundary))"

subsection \<open>strings.Replace with a count of 1\<close>

text \<open>
  \<^verbatim>\<open>strings.Index(s, substr)\<close>: the index of the first instance of \<open>substr\<close> in
  \<open>s\<close>, or \<open>None\<close> where Go returns -1.
\<close>

fun strings_Index :: "string \<Rightarrow> string \<Rightarrow> nat option" where
  "strings_Index [] substr = (if substr = [] then Some 0 else None)"
| "strings_Index (c # s) substr =
     (if prefix substr (c # s) then Some 0 else map_option Suc (strings_Index s substr))"

text \<open>
  \<^verbatim>\<open>strings.Replace(s, old, new, 1)\<close>: a copy of \<open>s\<close> with the first instance of
  \<open>old\<close> replaced by \<open>new\<close>. An empty \<open>old\<close> matches at the beginning of \<open>s\<close>.
\<close>

definition strings_Replace_1 :: "string \<Rightarrow> string \<Rightarrow> string \<Rightarrow> string" where
  "strings_Replace_1 s old new =
     (if old = new then s
      else
        (case strings_Index s old of
           None \<Rightarrow> s
         | Some j \<Rightarrow> take j s @ new @ drop (j + length old) s))"

subsection \<open>ValidatePermission\<close>

text \<open>
  The loop of lines 191 to 193. \<^verbatim>\<open>permissionResources\<close> is a Go map, and the order in
  which \<^verbatim>\<open>range\<close> visits its entries is not specified: the list holds the entries of
  the map in the order this call visits them.
\<close>

fun ValidatePermission_bindings :: "(string \<times> string) list \<Rightarrow> Permission \<Rightarrow> Permission" where
  "ValidatePermission_bindings [] requiredPermission = requiredPermission"
| "ValidatePermission_bindings ((placeholder, val) # rest) requiredPermission =
     ValidatePermission_bindings rest
       (requiredPermission\<lparr>Resource :=
          strings_Replace_1 (Resource requiredPermission) placeholder val\<rparr>)"

text \<open>
  The loop of lines 197 to 209. \<^verbatim>\<open>permissionAllowed\<close>, \<^verbatim>\<open>getRolePermission\<close> and
  \<^verbatim>\<open>applyUserPermissionResourceValues\<close> are methods declared in another file.
  \<^verbatim>\<open>getRolePermission\<close> reads and fills the role cache and calls the server: it returns
  the permissions or an error, and the client as it leaves it. The other two read the
  client only.
\<close>

fun ValidatePermission_roles ::
  "(DefaultClient \<Rightarrow> Permission list \<Rightarrow> Permission \<Rightarrow> bool) \<Rightarrow>
   (DefaultClient \<Rightarrow> string \<Rightarrow> (error + Permission list) \<times> DefaultClient) \<Rightarrow>
   (DefaultClient \<Rightarrow> Permission list \<Rightarrow> JWTClaims \<Rightarrow> Permission list) \<Rightarrow>
   DefaultClient \<Rightarrow> JWTClaims \<Rightarrow> Permission \<Rightarrow> string list \<Rightarrow>
   (bool \<times> error option) \<times> DefaultClient" where
  "ValidatePermission_roles permissionAllowed getRolePermission
     applyUserPermissionResourceValues client claims requiredPermission [] =
     ((False, None), client)"
| "ValidatePermission_roles permissionAllowed getRolePermission
     applyUserPermissionResourceValues client claims requiredPermission (roleID # rest) =
     (case getRolePermission client roleID of
        (Inl err, client') \<Rightarrow>
          if err = errRoleNotFound
          then ValidatePermission_roles permissionAllowed getRolePermission
                 applyUserPermissionResourceValues client' claims requiredPermission rest
          else ((False, Some err), client')
      | (Inr grantedRolePermissions, client') \<Rightarrow>
          if permissionAllowed client'
               (applyUserPermissionResourceValues client' grantedRolePermissions claims)
               requiredPermission
          then ((True, None), client')
          else ValidatePermission_roles permissionAllowed getRolePermission
                 applyUserPermissionResourceValues client' claims requiredPermission rest)"

text \<open>\<open>claims\<close> is a pointer: \<open>None\<close> is nil.\<close>

definition ValidatePermission ::
  "(DefaultClient \<Rightarrow> Permission list \<Rightarrow> Permission \<Rightarrow> bool) \<Rightarrow>
   (DefaultClient \<Rightarrow> string \<Rightarrow> (error + Permission list) \<times> DefaultClient) \<Rightarrow>
   (DefaultClient \<Rightarrow> Permission list \<Rightarrow> JWTClaims \<Rightarrow> Permission list) \<Rightarrow>
   DefaultClient \<Rightarrow> JWTClaims option \<Rightarrow> Permission \<Rightarrow> (string \<times> string) list \<Rightarrow>
   (bool \<times> error option) \<times> DefaultClient" where
  "ValidatePermission permissionAllowed getRolePermission applyUserPermissionResourceValues
     client claims requiredPermission permissionResources =
     (case claims of
        None \<Rightarrow> ((False, None), client)
      | Some c \<Rightarrow>
          let required = ValidatePermission_bindings permissionResources requiredPermission
          in if permissionAllowed client (Permissions c) required
             then ((True, None), client)
             else ValidatePermission_roles permissionAllowed getRolePermission
                    applyUserPermissionResourceValues client c required (Roles c))"

subsection \<open>ValidateAudience\<close>

text \<open>
  \<^verbatim>\<open>http_NewRequest\<close> is \<^verbatim>\<open>http.NewRequest\<close> with a nil body and \<^verbatim>\<open>json_Unmarshal\<close>
  is \<^verbatim>\<open>json.Unmarshal\<close> into the struct of line 325, whose one field is the base URI;
  both are of the standard library and are parameters.
\<close>

definition getClientInformation ::
  "(string \<Rightarrow> string \<Rightarrow> error + Request) \<Rightarrow> (string \<Rightarrow> error + string) \<Rightarrow>
   DefaultClient \<Rightarrow> string \<Rightarrow> int \<Rightarrow> error option \<times> DefaultClient" where
  "getClientInformation http_NewRequest json_Unmarshal client getClientInformationURL now =
     (case http_NewRequest ''GET'' getClientInformationURL of
        Inl err \<Rightarrow> (Some (fmt_Errorf ''unable to create new http request: '' err), client)
      | Inr req0 \<Rightarrow>
          let req = req0\<lparr>Header := Header req0 @
                      [(''Content-Type'', ''application/json''),
                       (''Authorization'', ''Bearer '' @ clientAccessToken client)]\<rparr>
          in (case httpClient client req of
                Inl err \<Rightarrow> (Some (fmt_Errorf ''unable to do http request: '' err), client)
              | Inr resp \<Rightarrow>
                  (case ReadBody resp of
                     Inl err \<Rightarrow>
                       (Some (fmt_Errorf ''unable to read body response: '' err), client)
                   | Inr bodyBytes \<Rightarrow>
                       if StatusCode resp \<noteq> 200
                       then (Some (fmt_Errorf_status (StatusCode resp) bodyBytes), client)
                       else
                         (case json_Unmarshal bodyBytes of
                            Inl err \<Rightarrow>
                              (Some (fmt_Errorf ''unable to unmarshal body: '' err), client)
                          | Inr baseURI \<Rightarrow>
                              (None, client\<lparr>baseURICache :=
                                 cache_Set (baseURICache client) baseURIKey
                                   (string_iface baseURI) 0 now\<rparr>)))))"

text \<open>
  The loop of lines 287 to 293: \<^verbatim>\<open>reqAud == baseURI\<close> compares a string with an
  \<^verbatim>\<open>interface{}\<close>, and holds when the interface holds that string.
\<close>

fun ValidateAudience_isAllowed :: "string list \<Rightarrow> iface \<Rightarrow> bool" where
  "ValidateAudience_isAllowed [] baseURI = False"
| "ValidateAudience_isAllowed (reqAud # rest) baseURI =
     (if string_iface reqAud = baseURI then True else ValidateAudience_isAllowed rest baseURI)"

definition clientInformationPath :: "string \<Rightarrow> string \<Rightarrow> string" where
  "clientInformationPath ns cid = ''/v3/admin/namespaces/'' @ ns @ ''/clients/'' @ cid"

text \<open>
  The result is \<open>None\<close> when the call panics (line 277 reads through a nil
  \<^verbatim>\<open>client.config\<close>); otherwise the returned error (\<open>None\<close> is nil) and the client as
  the call leaves it. The two messages printed to standard output are left out.
\<close>

definition ValidateAudience ::
  "(string \<Rightarrow> string \<Rightarrow> error + Request) \<Rightarrow> (string \<Rightarrow> error + string) \<Rightarrow>
   store \<Rightarrow> DefaultClient \<Rightarrow> JWTClaims option \<Rightarrow> int \<Rightarrow>
   (error option \<times> DefaultClient) option" where
  "ValidateAudience http_NewRequest json_Unmarshal h client claims now =
     (case claims of
        None \<Rightarrow> Some (Some (errors_New ''claims is nil''), client)
      | Some c \<Rightarrow>
          (case Audience c of
             None \<Rightarrow> Some (None, client)
           | Some aud \<Rightarrow>
               let finish = (\<lambda>baseURI client'.
                     if \<not> ValidateAudience_isAllowed aud baseURI
                     then Some (Some (errors_New
                       ''audience doesn't match the client's base uri. access denied''), client')
                     else Some (None, client'))
               in (case cache_Get (baseURICache client) baseURIKey now of
                     (baseURI, True) \<Rightarrow> finish baseURI client
                   | (baseURI, False) \<Rightarrow>
                       (case h (config client) of
                          None \<Rightarrow> None
                        | Some cfg \<Rightarrow>
                            let path = clientInformationPath (Namespace c) (ClientID cfg);
                                getClientInformationURL = BaseURL cfg @ path
                            in (case getClientInformation http_NewRequest json_Unmarshal
                                       client getClientInformationURL now of
                                  (Some err, client') \<Rightarrow> Some (Some err, client')
                                | (None, client') \<Rightarrow>
                                    finish (fst (cache_Get (baseURICache client') baseURIKey now))
                                      client')))))"

subsection \<open>The match rule\<close>

text \<open>
  Modelled from the spec: the method \<^verbatim>\<open>permissionAllowed\<close> is declared in another file.
  Section 4.4: two resource patterns match segment by segment on their colon-delimited
  fields, a wildcard segment on the granted side matches any single segment on the
  required side, and the segment counts must be equal; the action matches when the
  required mask and the granted mask have the required mask as their bitwise AND. The
  required permission is allowed when one of the granted permissions matches it. The
  examples below instantiate the parameter of \<^verbatim>\<open>ValidatePermission\<close> with this rule;
  the theorems hold for every rule.
\<close>

fun splitColon :: "string \<Rightarrow> string list" where
  "splitColon [] = [[]]"
| "splitColon (c # s) =
     (if c = CHR '':'' then [] # splitColon s
      else (case splitColon s of [] \<Rightarrow> [[c]] | seg # segs \<Rightarrow> (c # seg) # segs))"

fun segmentsMatch :: "string list \<Rightarrow> string list \<Rightarrow> bool" where
  "segmentsMatch [] [] = True"
| "segmentsMatch (g # gs) (r # rs) = ((g = ''*'' \<or> g = r) \<and> segmentsMatch gs rs)"
| "segmentsMatch [] (r # rs) = False"
| "segmentsMatch (g # gs) [] = False"

definition permissionAllowed :: "DefaultClient \<Rightarrow> Permission list \<Rightarrow> Permission \<Rightarrow> bool" where
  "permissionAllowed client grantedPermissions requiredPermission =
     list_ex (\<lambda>granted.
        segmentsMatch (splitColon (Resource granted)) (splitColon (Resource requiredPermission)) \<and>
        Action requiredPermission AND Action granted = Action requiredPermission)
      grantedPermissions"

subsection \<open>Example instances\<close>

text \<open>
  A configuration at address 1 with no durations set, and the client that
  \<^verbatim>\<open>NewDefaultClient\<close> builds for it, written out. Its HTTP client refuses every
  request.
\<close>

definition exampleConfig :: Config where
  "exampleConfig =
     \<lparr>BaseURL = ''https://iam.example.net'', ClientID = ''client-1'',
      ClientSecret = ''secret'', RolesCacheExpirationTime = 0,
      JWKSRefreshInterval = 0, RevocationListRefreshInterval = 0\<rparr>"

definition exampleStore :: store where
  "exampleStore = Map.empty(1 \<mapsto> exampleConfig)"

definition exampleClient :: DefaultClient where
  "exampleClient =
     \<lparr>keys = Map.empty,
      clientAccessToken = [],
      config = 1,
      rolePermissionCache = cache_New defaultRoleCacheTime (2 * defaultRoleCacheTime),
      revocationFilter = None,
      revokedUsers = Map.empty,
      tokenRefreshActive = False,
      localValidationActive = False,
      jwksRefreshError = None,
      revocationListRefreshError = None,
      tokenRefreshError = None,
      remoteTokenValidation = (\<lambda>accessToken. (False, None)),
      baseURICache = cache_New baseURICacheExpiration baseURICacheExpiration,
      httpClient = (\<lambda>req. Inl (errors_New ''connection refused''))\<rparr>"

definition exampleClaims :: JWTClaims where
  "exampleClaims =
     \<lparr>Subject = ''42'', IssuedAt = 100, Namespace = ''accel'', Roles = [],
      Permissions = [\<lparr>Resource = ''NAMESPACE:accel:USER:42'', Action = 2\<rparr>],
      Audience = None, Scope = ''account'', JusticeFlags = 0, Bans = []\<rparr>"

text \<open>
  A role store with one role, \<^verbatim>\<open>mod\<close>; the role \<^verbatim>\<open>broken\<close> fails to load and every
  other role is not found. A fetch that succeeds is recorded in the role cache.
\<close>

definition exampleGetRolePermission ::
  "DefaultClient \<Rightarrow> string \<Rightarrow> (error + Permission list) \<times> DefaultClient" where
  "exampleGetRolePermission client roleID =
     (if roleID = ''mod''
      then (Inr [\<lparr>Resource = ''NAMESPACE:*:USER:*'', Action = 6\<rparr>],
            client\<lparr>rolePermissionCache :=
              cache_Set (rolePermissionCache client) roleID
                (permissions_iface [\<lparr>Resource = ''NAMESPACE:*:USER:*'', Action = 6\<rparr>]) 0 0\<rparr>)
      else if roleID = ''broken''
      then (Inl (errors_New ''connection refused''), client)
      else (Inl errRoleNotFound, client))"

definition exampleApply :: "DefaultClient \<Rightarrow> Permission list \<Rightarrow> JWTClaims \<Rightarrow> Permission list" where
  "exampleApply client grantedPermissions claims = grantedPermissions"

text \<open>
  A request constructor that accepts every URL, a server that answers every request
  with status 200 and the body \<^verbatim>\<open>app\<close>, and a decoder that reads that body as the
  base URI \<^verbatim>\<open>https://app.example.net\<close>.
\<close>

definition exampleNewRequest :: "string \<Rightarrow> string \<Rightarrow> error + Request" where
  "exampleNewRequest method url = Inr \<lparr>Method = method, URL = url, Header = []\<rparr>"

definition exampleServer :: "Request \<Rightarrow> error + Response" where
  "exampleServer req = Inr \<lparr>StatusCode = 200, ReadBody = Inr ''app''\<rparr>"

definition exampleUnmarshal :: "string \<Rightarrow> error + string" where
  "exampleUnmarshal body =
     (if body = ''app'' then Inr ''https://app.example.net''
      else Inl (errors_New ''unexpected end of JSON input''))"

section \<open>Properties\<close>

subsection \<open>The first instance of a substring\<close>

lemma strings_Index_occurs:
  "strings_Index s sub = Some j \<Longrightarrow> s = take j s @ sub @ drop (j + length sub) s"
proof (induction s arbitrary: j)
  case Nil
  then show ?case by (simp split: if_splits)
next
  case (Cons c s)
  show ?case
  proof (cases "prefix sub (c # s)")
    case True
    then obtain t where "c # s = sub @ t" by (auto simp: prefix_def)
    moreover from True Cons.prems have "j = 0" by simp
    ultimately show ?thesis by simp
  next
    case False
    with Cons.prems obtain k where k: "strings_Index s sub = Some k" and j: "j = Suc k"
      by auto
    from Cons.IH [OF k] show ?thesis by (simp add: j)
  qed
qed

lemma strings_Index_leftmost:
  "strings_Index s sub = Some j \<Longrightarrow> s = pre @ sub @ post \<Longrightarrow> j \<le> length pre"
proof (induction s arbitrary: j pre)
  case Nil
  then show ?case by (simp split: if_splits)
next
  case (Cons c s)
  show ?case
  proof (cases "prefix sub (c # s)")
    case True
    with Cons.prems(1) have "j = 0" by simp
    then show ?thesis by simp
  next
    case False
    with Cons.prems(1) obtain k where k: "strings_Index s sub = Some k" and j: "j = Suc k"
      by auto
    from False Cons.prems(2) have "pre \<noteq> []" by (auto simp: prefix_def)
    then obtain pre' where pre: "pre = c # pre'" using Cons.prems(2) by (cases pre) auto
    with Cons.prems(2) have "s = pre' @ sub @ post" by simp
    from Cons.IH [OF k this] show ?thesis by (simp add: j pre)
  qed
qed

lemma strings_Index_absent:
  "strings_Index s sub = None \<Longrightarrow> \<not> sublist sub s"
proof (induction s)
  case Nil
  then show ?case by (simp split: if_splits)
next
  case (Cons c s)
  then have np: "\<not> prefix sub (c # s)" and "strings_Index s sub = None"
    by (auto split: if_splits)
  with Cons.IH have "\<not> sublist sub s" by simp
  with np show ?case by (simp add: sublist_Cons_right)
qed

lemma strings_Index_present:
  "strings_Index s sub = Some j \<Longrightarrow> sublist sub s"
  using strings_Index_occurs [of s sub j] unfolding sublist_def by blast

lemma bindings_Action: "Action (ValidatePermission_bindings bs rp) = Action rp"
  by (induction bs rp rule: ValidatePermission_bindings.induct) simp_all

lemma bindings_append:
  "ValidatePermission_bindings (bs @ bs') rp =
     ValidatePermission_bindings bs' (ValidatePermission_bindings bs rp)"
  by (induction bs rp rule: ValidatePermission_bindings.induct) simp_all

lemma Replace_1_absent: "\<not> sublist old s \<Longrightarrow> strings_Replace_1 s old new = s"
  using strings_Index_present [of s old]
  by (auto simp: strings_Replace_1_def split: option.splits)

lemma Replace_1_leftmost:
  assumes "s = pre @ old @ post"
    and "\<forall>pre' post'. s = pre' @ old @ post' \<longrightarrow> length pre \<le> length pre'"
  shows "strings_Replace_1 s old new = pre @ new @ post"
proof (cases "strings_Index s old")
  case None
  from strings_Index_absent [OF None] assms(1) show ?thesis
    by (auto simp: sublist_def)
next
  case (Some j)
  from strings_Index_leftmost [OF Some assms(1)] have "j \<le> length pre" .
  moreover from assms(2) strings_Index_occurs [OF Some] have "length pre \<le> length (take j s)"
    by blast
  ultimately have j: "j = length pre" by simp
  show ?thesis
  proof (cases "old = new")
    case True
    with assms(1) show ?thesis by (simp add: strings_Replace_1_def)
  next
    case False
    with Some show ?thesis by (simp add: strings_Replace_1_def j assms(1))
  qed
qed

subsection \<open>ValidatePermission: the resource bindings\<close>

lemma ValidatePermission_bindings_first:
  "ValidatePermission pa grp aup client claims rp bs =
     ValidatePermission pa grp aup client claims (ValidatePermission_bindings bs rp) []"
  by (cases claims) (simp_all add: ValidatePermission_def)

lemma bindings_snoc:
  "ValidatePermission_bindings (bs @ [(placeholder, v)]) rp =
     (ValidatePermission_bindings bs rp)\<lparr>Resource :=
        strings_Replace_1 (Resource (ValidatePermission_bindings bs rp)) placeholder v\<rparr>"
  by (simp add: bindings_append)

text \<open>
  C1, as the code has it. \<^verbatim>\<open>ValidatePermission\<close> applies the bindings to the resource
  of the required permission before any matching: its result is the result for the
  substituted permission with no bindings, and the action is not changed. The bindings
  are visited one after the other, in the order the map yields them, and each visit
  replaces the first (leftmost) instance of the placeholder in the resource as it then
  stands by the bound value: a placeholder with no instance leaves the resource as it
  is, and an instance with no instance to its left is the one replaced. Later instances
  of the placeholder stay.
\<close>

theorem ValidatePermission_replaces_first_occurrence:
  "ValidatePermission pa grp aup client claims rp bs =
     ValidatePermission pa grp aup client claims (ValidatePermission_bindings bs rp) [] \<and>
   Action (ValidatePermission_bindings bs rp) = Action rp \<and>
   (\<not> sublist placeholder (Resource (ValidatePermission_bindings bs rp)) \<longrightarrow>
      Resource (ValidatePermission_bindings (bs @ [(placeholder, v)]) rp) =
        Resource (ValidatePermission_bindings bs rp)) \<and>
   (\<forall>pre post.
      Resource (ValidatePermission_bindings bs rp) = pre @ placeholder @ post \<and>
      (\<forall>pre' post'. Resource (ValidatePermission_bindings bs rp) = pre' @ placeholder @ post'
         \<longrightarrow> length pre \<le> length pre') \<longrightarrow>
      Resource (ValidatePermission_bindings (bs @ [(placeholder, v)]) rp) = pre @ v @ post)"
proof (intro conjI allI impI)
  show "ValidatePermission pa grp aup client claims rp bs =
     ValidatePermission pa grp aup client claims (ValidatePermission_bindings bs rp) []"
    by (rule ValidatePermission_bindings_first)
  show "Action (ValidatePermission_bindings bs rp) = Action rp"
    by (rule bindings_Action)
next
  assume "\<not> sublist placeholder (Resource (ValidatePermission_bindings bs rp))"
  then show "Resource (ValidatePermission_bindings (bs @ [(placeholder, v)]) rp) =
        Resource (ValidatePermission_bindings bs rp)"
    by (simp add: bindings_snoc Replace_1_absent)
next
  fix pre post
  assume "Resource (ValidatePermission_bindings bs rp) = pre @ placeholder @ post \<and>
      (\<forall>pre' post'. Resource (ValidatePermission_bindings bs rp) = pre' @ placeholder @ post'
         \<longrightarrow> length pre \<le> length pre')"
  then have "strings_Replace_1 (Resource (ValidatePermission_bindings bs rp)) placeholder v =
      pre @ v @ post"
    by (intro Replace_1_leftmost) blast+
  then show "Resource (ValidatePermission_bindings (bs @ [(placeholder, v)]) rp) = pre @ v @ post"
    by (simp add: bindings_snoc)
qed

theorem ValidatePermission_replaces_first_occurrence_witness:
  "Resource (ValidatePermission_bindings [(''{namespace}'', ''accel'')]
      \<lparr>Resource = ''NAMESPACE:{namespace}:ROLE:{namespace}'', Action = 2\<rparr>) =
     ''NAMESPACE:accel:ROLE:{namespace}'' \<and>
   Resource (ValidatePermission_bindings [(''{userId}'', ''42'')]
      \<lparr>Resource = ''NAMESPACE:{namespace}:ROLE:{namespace}'', Action = 2\<rparr>) =
     ''NAMESPACE:{namespace}:ROLE:{namespace}''"
proof -
  let ?r = "''NAMESPACE:{namespace}:ROLE:{namespace}''"
  let ?rp = "\<lparr>Resource = ?r, Action = 2\<rparr>"
  have idx: "strings_Index ?r ''{namespace}'' = Some (length ''NAMESPACE:'')"
    by simp
  have left: "\<forall>pre' post'. ?r = pre' @ ''{namespace}'' @ post' \<longrightarrow>
      length ''NAMESPACE:'' \<le> length pre'"
    using strings_Index_leftmost [OF idx] by blast
  have none: "strings_Index ?r ''{userId}'' = None"
    by simp
  have absent: "\<not> sublist ''{userId}'' ?r"
    by (rule strings_Index_absent [OF none])
  have r0: "Resource (ValidatePermission_bindings [] ?rp) = ?r"
    by simp
  have "Resource (ValidatePermission_bindings ([] @ [(''{namespace}'', ''accel'')]) ?rp) =
      ''NAMESPACE:'' @ ''accel'' @ '':ROLE:{namespace}''"
  proof (rule ValidatePermission_replaces_first_occurrence
      [THEN conjunct2, THEN conjunct2, THEN conjunct2, rule_format])
    show "Resource (ValidatePermission_bindings [] ?rp) =
        ''NAMESPACE:'' @ ''{namespace}'' @ '':ROLE:{namespace}'' \<and>
      (\<forall>pre' post'. Resource (ValidatePermission_bindings [] ?rp) =
          pre' @ ''{namespace}'' @ post' \<longrightarrow> length ''NAMESPACE:'' \<le> length pre')"
      unfolding r0 by (rule conjI) (simp, rule left)
  qed
  moreover
  have "Resource (ValidatePermission_bindings ([] @ [(''{userId}'', ''42'')]) ?rp) =
      Resource (ValidatePermission_bindings [] ?rp)"
  proof (rule ValidatePermission_replaces_first_occurrence
      [THEN conjunct2, THEN conjunct2, THEN conjunct1, rule_format])
    show "\<not> sublist ''{userId}'' (Resource (ValidatePermission_bindings [] ?rp))"
      unfolding r0 by (rule absent)
  qed
  ultimately show ?thesis by simp
qed

text \<open>
  C1, as the specification states it, fails: a placeholder that occurs twice is bound
  once, its second instance is still in the resource that is matched, and a direct
  permission for the fully substituted resource does not allow it.
\<close>

theorem ValidatePermission_every_occurrence_counterexample:
  "Resource (ValidatePermission_bindings [(''{namespace}'', ''accel'')]
      \<lparr>Resource = ''NAMESPACE:{namespace}:ROLE:{namespace}'', Action = 2\<rparr>) =
     ''NAMESPACE:accel:ROLE:{namespace}'' \<and>
   sublist ''{namespace}'' ''NAMESPACE:accel:ROLE:{namespace}'' \<and>
   ValidatePermission permissionAllowed exampleGetRolePermission exampleApply exampleClient
     (Some (exampleClaims\<lparr>Permissions :=
        [\<lparr>Resource = ''NAMESPACE:accel:ROLE:accel'', Action = 2\<rparr>]\<rparr>))
     \<lparr>Resource = ''NAMESPACE:{namespace}:ROLE:{namespace}'', Action = 2\<rparr>
     [(''{namespace}'', ''accel'')] = ((False, None), exampleClient)"
proof (intro conjI)
  show r: "Resource (ValidatePermission_bindings [(''{namespace}'', ''accel'')]
      \<lparr>Resource = ''NAMESPACE:{namespace}:ROLE:{namespace}'', Action = 2\<rparr>) =
     ''NAMESPACE:accel:ROLE:{namespace}''"
    by (simp add: strings_Replace_1_def)
  have "strings_Index ''NAMESPACE:accel:ROLE:{namespace}'' ''{namespace}'' =
      Some (length ''NAMESPACE:accel:ROLE:'')"
    by simp
  then show "sublist ''{namespace}'' ''NAMESPACE:accel:ROLE:{namespace}''"
    by (rule strings_Index_present)
  show "ValidatePermission permissionAllowed exampleGetRolePermission exampleApply exampleClient
     (Some (exampleClaims\<lparr>Permissions :=
        [\<lparr>Resource = ''NAMESPACE:accel:ROLE:accel'', Action = 2\<rparr>]\<rparr>))
     \<lparr>Resource = ''NAMESPACE:{namespace}:ROLE:{namespace}'', Action = 2\<rparr>
     [(''{namespace}'', ''accel'')] = ((False, None), exampleClient)"
    by (simp add: ValidatePermission_def strings_Replace_1_def permissionAllowed_def
        exampleClaims_def)
qed

subsection \<open>ValidatePermission with nil claims\<close>

text \<open>
  C3. For every required permission and every map of resource bindings,
  \<^verbatim>\<open>ValidatePermission\<close> called with nil claims returns \<^verbatim>\<open>(false, nil)\<close>. The result
  is the same for every match rule, every role fetch and every substitution of granted
  permissions, and the client is left as it was: nothing is substituted, matched or
  fetched.
\<close>

theorem ValidatePermission_nil_claims:
  "ValidatePermission pa grp aup client None requiredPermission permissionResources =
     ((False, None), client)"
  by (simp add: ValidatePermission_def)

subsection \<open>ValidatePermission: role permissions\<close>

lemma roles_never_errRoleNotFound:
  "snd (fst (ValidatePermission_roles pa grp aup client c rp roles)) \<noteq> Some errRoleNotFound"
proof (induction roles arbitrary: client)
  case Nil
  show ?case by simp
next
  case (Cons roleID rest)
  obtain res client' where g: "grp client roleID = (res, client')"
    by (cases "grp client roleID")
  show ?case
  proof (cases res)
    case (Inl err)
    with g Cons.IH [of client'] show ?thesis by simp
  next
    case (Inr granted)
    with g Cons.IH [of client'] show ?thesis by simp
  qed
qed

text \<open>
  C4. During the iteration over the roles, a role whose fetch reports
  \<^verbatim>\<open>errRoleNotFound\<close> is skipped: the loop goes on with the next role, from the client
  the fetch left. Any other fetch error ends the loop at once, and the call returns
  false with that error; the roles after it are not fetched. When the direct
  permissions do not allow the required permission, the result of the call is the
  result of this loop over the roles of the claims, and the error returned by
  \<^verbatim>\<open>ValidatePermission\<close> is never \<^verbatim>\<open>errRoleNotFound\<close>.
\<close>

theorem ValidatePermission_role_errors:
  "(grp client roleID = (Inl errRoleNotFound, client') \<longrightarrow>
      ValidatePermission_roles pa grp aup client c required (roleID # rest) =
        ValidatePermission_roles pa grp aup client' c required rest) \<and>
   (grp client roleID = (Inl err, client') \<and> err \<noteq> errRoleNotFound \<longrightarrow>
      ValidatePermission_roles pa grp aup client c required (roleID # rest) =
        ((False, Some err), client')) \<and>
   (\<not> pa client (Permissions c) (ValidatePermission_bindings bs rp) \<longrightarrow>
      ValidatePermission pa grp aup client (Some c) rp bs =
        ValidatePermission_roles pa grp aup client c (ValidatePermission_bindings bs rp)
          (Roles c)) \<and>
   snd (fst (ValidatePermission pa grp aup client claims rp bs)) \<noteq> Some errRoleNotFound"
proof (intro conjI impI)
  assume "grp client roleID = (Inl errRoleNotFound, client')"
  then show "ValidatePermission_roles pa grp aup client c required (roleID # rest) =
        ValidatePermission_roles pa grp aup client' c required rest"
    by simp
next
  assume "grp client roleID = (Inl err, client') \<and> err \<noteq> errRoleNotFound"
  then show "ValidatePermission_roles pa grp aup client c required (roleID # rest) =
        ((False, Some err), client')"
    by simp
next
  assume "\<not> pa client (Permissions c) (ValidatePermission_bindings bs rp)"
  then show "ValidatePermission pa grp aup client (Some c) rp bs =
        ValidatePermission_roles pa grp aup client c (ValidatePermission_bindings bs rp)
          (Roles c)"
    by (simp add: ValidatePermission_def)
next
  show "snd (fst (ValidatePermission pa grp aup client claims rp bs)) \<noteq> Some errRoleNotFound"
  proof (cases claims)
    case None
    then show ?thesis by (simp add: ValidatePermission_def)
  next
    case (Some c')
    then show ?thesis
      using roles_never_errRoleNotFound
        [of pa grp aup client c' "ValidatePermission_bindings bs rp" "Roles c'"]
      by (simp add: ValidatePermission_def Let_def)
  qed
qed

theorem ValidatePermission_role_errors_witness:
  "ValidatePermission permissionAllowed exampleGetRolePermission exampleApply exampleClient
     (Some (exampleClaims\<lparr>Roles := [''ghost'', ''broken'', ''mod'']\<rparr>))
     \<lparr>Resource = ''NAMESPACE:accel:USER:7'', Action = 2\<rparr> [] =
     ((False, Some (errors_New ''connection refused'')), exampleClient)"
proof -
  let ?c = "exampleClaims\<lparr>Roles := [''ghost'', ''broken'', ''mod'']\<rparr>"
  let ?rp = "\<lparr>Resource = ''NAMESPACE:accel:USER:7'', Action = 2\<rparr>"
  let ?e = "errors_New ''connection refused''"
  note T = ValidatePermission_role_errors
    [where pa = permissionAllowed and grp = exampleGetRolePermission and aup = exampleApply
       and client = exampleClient and client' = exampleClient and c = ?c and required = ?rp]
  have direct: "\<not> permissionAllowed exampleClient (Permissions ?c)
      (ValidatePermission_bindings [] ?rp)"
    by (simp add: permissionAllowed_def exampleClaims_def)
  have ghost: "exampleGetRolePermission exampleClient ''ghost'' =
      (Inl errRoleNotFound, exampleClient)"
    by (simp add: exampleGetRolePermission_def)
  have broken: "exampleGetRolePermission exampleClient ''broken'' = (Inl ?e, exampleClient) \<and>
      ?e \<noteq> errRoleNotFound"
    by (simp add: exampleGetRolePermission_def)
  have "ValidatePermission permissionAllowed exampleGetRolePermission exampleApply
      exampleClient (Some ?c) ?rp [] =
    ValidatePermission_roles permissionAllowed exampleGetRolePermission exampleApply
      exampleClient ?c (ValidatePermission_bindings [] ?rp) (Roles ?c)"
    using T [where bs = "[]" and rp = ?rp, THEN conjunct2, THEN conjunct2, THEN conjunct1]
      direct by (rule mp)
  also have "\<dots> = ValidatePermission_roles permissionAllowed exampleGetRolePermission
      exampleApply exampleClient ?c ?rp (''ghost'' # [''broken'', ''mod''])"
    by simp
  also have "\<dots> = ValidatePermission_roles permissionAllowed exampleGetRolePermission
      exampleApply exampleClient ?c ?rp (''broken'' # [''mod''])"
    using T [where roleID = "''ghost''" and rest = "[''broken'', ''mod'']", THEN conjunct1]
      ghost by (rule mp)
  also have "\<dots> = ((False, Some ?e), exampleClient)"
    using T [where roleID = "''broken''" and rest = "[''mod'']" and err = ?e,
        THEN conjunct2, THEN conjunct1]
      broken by (rule mp)
  finally show ?thesis .
qed

subsection \<open>ValidatePermission: a direct permission\<close>

text \<open>
  C5. If the claims' direct permissions allow the substituted required permission,
  \<^verbatim>\<open>ValidatePermission\<close> returns \<^verbatim>\<open>(true, nil)\<close> at once: the result is the same for
  every role fetch and every list of roles, and the client, with its role cache, is
  returned as it was. The example is the one of section 8 of the specification, with a
  role on the token whose fetch would have written to the role cache.
\<close>

theorem ValidatePermission_direct_match:
  "pa client (Permissions c) (ValidatePermission_bindings bs rp) \<Longrightarrow>
     ValidatePermission pa grp aup client (Some c) rp bs = ((True, None), client)"
  by (simp add: ValidatePermission_def)

theorem ValidatePermission_direct_match_witness:
  "ValidatePermission permissionAllowed exampleGetRolePermission exampleApply exampleClient
     (Some (exampleClaims\<lparr>Roles := [''mod'']\<rparr>))
     \<lparr>Resource = ''NAMESPACE:{namespace}:USER:{userId}'', Action = 2\<rparr>
     [(''{namespace}'', ''accel''), (''{userId}'', ''42'')] = ((True, None), exampleClient) \<and>
   snd (exampleGetRolePermission exampleClient ''mod'') \<noteq> exampleClient"
proof
  have "permissionAllowed exampleClient (Permissions (exampleClaims\<lparr>Roles := [''mod'']\<rparr>))
     (ValidatePermission_bindings [(''{namespace}'', ''accel''), (''{userId}'', ''42'')]
        \<lparr>Resource = ''NAMESPACE:{namespace}:USER:{userId}'', Action = 2\<rparr>)"
    by (simp add: permissionAllowed_def exampleClaims_def strings_Replace_1_def)
  then show "ValidatePermission permissionAllowed exampleGetRolePermission exampleApply
      exampleClient (Some (exampleClaims\<lparr>Roles := [''mod'']\<rparr>))
     \<lparr>Resource = ''NAMESPACE:{namespace}:USER:{userId}'', Action = 2\<rparr>
     [(''{namespace}'', ''accel''), (''{userId}'', ''42'')] = ((True, None), exampleClient)"
    by (rule ValidatePermission_direct_match)
  have "items (rolePermissionCache (snd (exampleGetRolePermission exampleClient ''mod''))) ''mod''
      \<noteq> items (rolePermissionCache exampleClient) ''mod''"
    by (simp add: exampleGetRolePermission_def exampleClient_def cache_Set_def cache_New_def)
  then show "snd (exampleGetRolePermission exampleClient ''mod'') \<noteq> exampleClient"
    by auto
qed

subsection \<open>ValidateAndParseClaims: revoked subjects\<close>




subsection \<open>ValidateAndParseClaims: local validation not started\<close>

lemma NewDefaultClient_inactive:
  "NewDefaultClient vat dh h p = Some (h', client) \<Longrightarrow> \<not> localValidationActive client"
  by (auto simp: NewDefaultClient_def Let_def split: option.splits)

lemma StartLocalValidation_failed:
  assumes "StartLocalValidation gj gr client = (Some e, client')"
    and "\<forall>cl. localValidationActive (snd (gj cl)) = localValidationActive cl"
    and "\<forall>cl. localValidationActive (snd (gr cl)) = localValidationActive cl"
  shows "localValidationActive client' = localValidationActive client"
proof -
  obtain e1 c1 where g1: "gj client = (e1, c1)" by (cases "gj client")
  obtain e2 c2 where g2: "gr c1 = (e2, c2)" by (cases "gr c1")
  from assms(2) g1 have a1: "localValidationActive c1 = localValidationActive client"
    by (metis snd_conv)
  from assms(3) g2 have a2: "localValidationActive c2 = localValidationActive c1"
    by (metis snd_conv)
  from assms(1) g1 g2 a1 a2 show ?thesis
    by (auto simp: StartLocalValidation_def split: option.splits)
qed

text \<open>
  C6. When local validation is not active, \<^verbatim>\<open>ValidateAndParseClaims\<close> returns nil
  claims and the not-active error, for every token, every \<^verbatim>\<open>validateJWT\<close>, every
  \<^verbatim>\<open>userRevoked\<close> and every \<^verbatim>\<open>tokenRevoked\<close>: the signature and the revocation state are not consulted. That is
  the case for the client \<^verbatim>\<open>NewDefaultClient\<close> returns, and for a client on which
  \<^verbatim>\<open>StartLocalValidation\<close> has returned an error, as the flag is set by its last
  statement only (the two loaders are taken not to write the flag).
\<close>

theorem ValidateAndParseClaims_not_activated:
  "(\<not> localValidationActive client \<longrightarrow>
      ValidateAndParseClaims vj ur tr client accessToken = Inl (errors_New
        ''local validation is not active, activate by calling StartLocalValidation()'')) \<and>
   (NewDefaultClient vat dh h p = Some (h', client) \<longrightarrow>
      ValidateAndParseClaims vj ur tr client accessToken = Inl (errors_New
        ''local validation is not active, activate by calling StartLocalValidation()'')) \<and>
   (\<not> localValidationActive client \<and>
    (\<forall>cl. localValidationActive (snd (gj cl)) = localValidationActive cl) \<and>
    (\<forall>cl. localValidationActive (snd (gr cl)) = localValidationActive cl) \<and>
    StartLocalValidation gj gr client = (Some e, client') \<longrightarrow>
      ValidateAndParseClaims vj ur tr client' accessToken = Inl (errors_New
        ''local validation is not active, activate by calling StartLocalValidation()''))"
proof (intro conjI impI)
  assume "\<not> localValidationActive client"
  then show "ValidateAndParseClaims vj ur tr client accessToken = Inl (errors_New
        ''local validation is not active, activate by calling StartLocalValidation()'')"
    by (simp add: ValidateAndParseClaims_def)
next
  assume "NewDefaultClient vat dh h p = Some (h', client)"
  then have "\<not> localValidationActive client" by (rule NewDefaultClient_inactive)
  then show "ValidateAndParseClaims vj ur tr client accessToken = Inl (errors_New
        ''local validation is not active, activate by calling StartLocalValidation()'')"
    by (simp add: ValidateAndParseClaims_def)
next
  assume a: "\<not> localValidationActive client \<and>
    (\<forall>cl. localValidationActive (snd (gj cl)) = localValidationActive cl) \<and>
    (\<forall>cl. localValidationActive (snd (gr cl)) = localValidationActive cl) \<and>
    StartLocalValidation gj gr client = (Some e, client')"
  then have "localValidationActive client' = localValidationActive client"
    by (intro StartLocalValidation_failed [of gj gr client e client']) blast+
  with a have "\<not> localValidationActive client'" by simp
  then show "ValidateAndParseClaims vj ur tr client' accessToken = Inl (errors_New
        ''local validation is not active, activate by calling StartLocalValidation()'')"
    by (simp add: ValidateAndParseClaims_def)
qed

theorem ValidateAndParseClaims_not_activated_witness:
  "ValidateAndParseClaims (\<lambda>cl tok. Inr exampleClaims) (userRevoked True)
     (\<lambda>cl tok. False) exampleClient
     ''token'' = Inl (errors_New
       ''local validation is not active, activate by calling StartLocalValidation()'') \<and>
   NewDefaultClient (\<lambda>tok. (False, None)) (\<lambda>req. Inl (errors_New ''connection refused''))
     exampleStore 1 =
     Some (exampleStore(1 \<mapsto> exampleConfig\<lparr>RolesCacheExpirationTime := 60 * Second,
        JWKSRefreshInterval := 60 * Second, RevocationListRefreshInterval := 60 * Second\<rparr>),
       exampleClient) \<and>
   StartLocalValidation (\<lambda>cl. (Some (errors_New ''no keys''), cl)) (\<lambda>cl. (None, cl))
     (exampleClient\<lparr>clientAccessToken := ''t''\<rparr>) =
     (Some (fmt_Errorf ''unable to get JWKS: '' (errors_New ''no keys'')),
      exampleClient\<lparr>clientAccessToken := ''t''\<rparr>) \<and>
   ValidateAndParseClaims (\<lambda>cl tok. Inr exampleClaims) (userRevoked True)
     (\<lambda>cl tok. False)
     (exampleClient\<lparr>clientAccessToken := ''t''\<rparr>) ''token'' = Inl (errors_New
       ''local validation is not active, activate by calling StartLocalValidation()'')"
proof (intro conjI)
  let ?gj = "\<lambda>cl::DefaultClient. (Some (errors_New ''no keys''), cl)"
  let ?gr = "\<lambda>cl::DefaultClient. (None :: error option, cl)"
  let ?vj = "\<lambda>(cl::DefaultClient) (tok::string). Inr exampleClaims :: error + JWTClaims"
  let ?tr = "\<lambda>(cl::DefaultClient) (tok::string). False"
  let ?c = "exampleClient\<lparr>clientAccessToken := ''t''\<rparr>"
  show new: "NewDefaultClient (\<lambda>tok. (False, None))
      (\<lambda>req. Inl (errors_New ''connection refused'')) exampleStore 1 =
     Some (exampleStore(1 \<mapsto> exampleConfig\<lparr>RolesCacheExpirationTime := 60 * Second,
        JWKSRefreshInterval := 60 * Second, RevocationListRefreshInterval := 60 * Second\<rparr>),
       exampleClient)"
    by (simp add: NewDefaultClient_def exampleStore_def exampleConfig_def exampleClient_def
        defaultRoleCacheTime_def defaultJWKSRefreshInterval_def
        defaultRevocationListRefreshInterval_def)
  from new show "ValidateAndParseClaims ?vj (userRevoked True) ?tr exampleClient ''token'' = Inl (errors_New
       ''local validation is not active, activate by calling StartLocalValidation()'')"
    by (rule ValidateAndParseClaims_not_activated
        [THEN conjunct2, THEN conjunct1, THEN mp])
  show start: "StartLocalValidation ?gj ?gr ?c =
      (Some (fmt_Errorf ''unable to get JWKS: '' (errors_New ''no keys'')), ?c)"
    by (simp add: StartLocalValidation_def)
  have off: "\<not> localValidationActive ?c"
    by (simp add: exampleClient_def)
  from off start
  have "\<not> localValidationActive ?c \<and>
    (\<forall>cl. localValidationActive (snd (?gj cl)) = localValidationActive cl) \<and>
    (\<forall>cl. localValidationActive (snd (?gr cl)) = localValidationActive cl) \<and>
    StartLocalValidation ?gj ?gr ?c =
      (Some (fmt_Errorf ''unable to get JWKS: '' (errors_New ''no keys'')), ?c)"
    by simp
  then have "ValidateAndParseClaims ?vj (userRevoked True) ?tr ?c ''token'' = Inl (errors_New
       ''local validation is not active, activate by calling StartLocalValidation()'')"
    by (rule ValidateAndParseClaims_not_activated
        [THEN conjunct2, THEN conjunct2, THEN mp])
  moreover from off have "ValidateAndParseClaims ?vj (userRevoked True) ?tr ?c ''token'' = Inl (errors_New
       ''local validation is not active, activate by calling StartLocalValidation()'')"
    by (rule ValidateAndParseClaims_not_activated [THEN conjunct1, THEN mp])
  ultimately show "ValidateAndParseClaims ?vj (userRevoked True) ?tr ?c ''token'' = Inl (errors_New
       ''local validation is not active, activate by calling StartLocalValidation()'')"
    by simp
qed

subsection \<open>HealthCheck\<close>

text \<open>
  C8. \<^verbatim>\<open>HealthCheck\<close> returns true if and only if no key-refresh error is recorded,
  no revocation-refresh error is recorded and, when bearer-token refresh is active, no
  bearer-token-refresh error is recorded. When bearer-token refresh is not active, a
  recorded bearer-token-refresh error does not affect the result.
\<close>

theorem HealthCheck_iff:
  "HealthCheck client \<longleftrightarrow>
     jwksRefreshError client = None \<and> revocationListRefreshError client = None \<and>
     (tokenRefreshActive client \<longrightarrow> tokenRefreshError client = None)"
  by (simp add: HealthCheck_def)

theorem HealthCheck_iff_witness:
  "HealthCheck (exampleClient\<lparr>tokenRefreshActive := True\<rparr>) \<and>
   \<not> HealthCheck (exampleClient\<lparr>tokenRefreshActive := True,
        tokenRefreshError := Some (errors_New ''grant failed'')\<rparr>) \<and>
   HealthCheck (exampleClient\<lparr>tokenRefreshError := Some (errors_New ''grant failed'')\<rparr>) \<and>
   \<not> HealthCheck (exampleClient\<lparr>jwksRefreshError := Some (errors_New ''no keys'')\<rparr>)"
  using HealthCheck_iff [of "exampleClient\<lparr>tokenRefreshActive := True\<rparr>"]
    HealthCheck_iff [of "exampleClient\<lparr>tokenRefreshActive := True,
        tokenRefreshError := Some (errors_New ''grant failed'')\<rparr>"]
    HealthCheck_iff [of "exampleClient\<lparr>tokenRefreshError := Some (errors_New ''grant failed'')\<rparr>"]
    HealthCheck_iff [of "exampleClient\<lparr>jwksRefreshError := Some (errors_New ''no keys'')\<rparr>"]
  by (simp add: exampleClient_def)

subsection \<open>ValidateAudience\<close>

lemma isAllowed_iff:
  "ValidateAudience_isAllowed aud (string_iface uri) \<longleftrightarrow> uri \<in> set aud"
  by (induction aud) auto

lemma cache_Get_fresh:
  "now2 \<le> now + sint (defaultExpiration c) \<Longrightarrow>
     cache_Get (cache_Set c k x 0 now) k now2 = (x, True)"
  by (simp add: cache_Get_def cache_Set_def Let_def)

lemma getClientInformation_ok:
  assumes "nr ''GET'' url = Inr rq"
    and "httpClient client (rq\<lparr>Header := Header rq @
           [(''Content-Type'', ''application/json''),
            (''Authorization'', ''Bearer '' @ clientAccessToken client)]\<rparr>) = Inr resp"
    and "ReadBody resp = Inr body" and "StatusCode resp = 200" and "ju body = Inr uri"
  shows "getClientInformation nr ju client url now =
     (None, client\<lparr>baseURICache :=
        cache_Set (baseURICache client) baseURIKey (string_iface uri) 0 now\<rparr>)"
  using assms by (simp add: getClientInformation_def Let_def)

lemma ValidateAudience_hit:
  assumes "Audience c = Some aud"
    and "cache_Get (baseURICache client) baseURIKey now = (string_iface uri, True)"
  shows "ValidateAudience nr ju h client (Some c) now =
     Some (if uri \<in> set aud then None
           else Some (errors_New
             ''audience doesn't match the client's base uri. access denied''), client)"
  using assms by (simp add: ValidateAudience_def isAllowed_iff)

lemma ValidateAudience_miss_failed:
  assumes "Audience c = Some aud"
    and "snd (cache_Get (baseURICache client) baseURIKey now) = False"
    and "h (config client) = Some cfg"
    and "getClientInformation nr ju client
           (BaseURL cfg @ clientInformationPath (Namespace c) (ClientID cfg)) now =
         (Some err, client')"
  shows "ValidateAudience nr ju h client (Some c) now = Some (Some err, client')"
proof -
  obtain b where "cache_Get (baseURICache client) baseURIKey now = (b, False)"
    using assms(2) by (cases "cache_Get (baseURICache client) baseURIKey now") simp
  with assms(1,3,4) show ?thesis
    by (simp add: ValidateAudience_def Let_def)
qed

lemma ValidateAudience_miss_fetched:
  assumes "Audience c = Some aud"
    and "snd (cache_Get (baseURICache client) baseURIKey now) = False"
    and "h (config client) = Some cfg"
    and "nr ''GET'' (BaseURL cfg @ clientInformationPath (Namespace c) (ClientID cfg)) =
           Inr rq"
    and "httpClient client (rq\<lparr>Header := Header rq @
           [(''Content-Type'', ''application/json''),
            (''Authorization'', ''Bearer '' @ clientAccessToken client)]\<rparr>) = Inr resp"
    and "ReadBody resp = Inr body" and "StatusCode resp = 200" and "ju body = Inr uri"
  shows "ValidateAudience nr ju h client (Some c) now =
     Some (if uri \<in> set aud then None
           else Some (errors_New
             ''audience doesn't match the client's base uri. access denied''),
       client\<lparr>baseURICache :=
         cache_Set (baseURICache client) baseURIKey (string_iface uri) 0 now\<rparr>)"
proof -
  obtain b where miss: "cache_Get (baseURICache client) baseURIKey now = (b, False)"
    using assms(2) by (cases "cache_Get (baseURICache client) baseURIKey now") simp
  have get: "cache_Get (cache_Set (baseURICache client) baseURIKey (string_iface uri) 0 now)
      baseURIKey now = (string_iface uri, True)"
    by (simp add: cache_Get_def cache_Set_def Let_def)
  have "getClientInformation nr ju client
      (BaseURL cfg @ clientInformationPath (Namespace c) (ClientID cfg)) now =
     (None, client\<lparr>baseURICache :=
        cache_Set (baseURICache client) baseURIKey (string_iface uri) 0 now\<rparr>)"
    using assms(4-8) by (rule getClientInformation_ok [where nr = nr and ju = ju])
  with miss assms(1,3) get show ?thesis
    by (simp add: ValidateAudience_def Let_def isAllowed_iff)
qed

text \<open>
  C7, as the code has it. \<^verbatim>\<open>ValidateAudience\<close> returns nil when the claims carry no
  audience, whatever the HTTP client, the store and the cache hold, and leaves the client
  as it was: nothing is fetched. With an audience and a base URI in the cache, it
  returns nil if and only if an audience entry equals that base URI, the
  audience-mismatch error otherwise, and fetches nothing. With an audience and no base
  URI in the cache, it fetches the client information; when the fetch succeeds with a
  base URI, that base URI is stored in the cache, where a read finds it until the
  cache's default expiration has passed, and the call returns nil if and only if an
  audience entry equals it, the audience-mismatch error otherwise. When the fetch
  fails, the call returns the error of the fetch.
\<close>

theorem ValidateAudience_cases:
  "(Audience c = None \<longrightarrow> ValidateAudience nr ju h client (Some c) now = Some (None, client)) \<and>
   (Audience c = Some aud \<and>
    cache_Get (baseURICache client) baseURIKey now = (string_iface uri, True) \<longrightarrow>
      ValidateAudience nr ju h client (Some c) now =
        Some (if uri \<in> set aud then None
              else Some (errors_New
                ''audience doesn't match the client's base uri. access denied''), client)) \<and>
   (Audience c = Some aud \<and>
    snd (cache_Get (baseURICache client) baseURIKey now) = False \<and>
    h (config client) = Some cfg \<and>
    nr ''GET'' (BaseURL cfg @ clientInformationPath (Namespace c) (ClientID cfg)) = Inr rq \<and>
    httpClient client (rq\<lparr>Header := Header rq @
       [(''Content-Type'', ''application/json''),
        (''Authorization'', ''Bearer '' @ clientAccessToken client)]\<rparr>) = Inr resp \<and>
    ReadBody resp = Inr body \<and> StatusCode resp = 200 \<and> ju body = Inr uri \<longrightarrow>
      ValidateAudience nr ju h client (Some c) now =
        Some (if uri \<in> set aud then None
              else Some (errors_New
                ''audience doesn't match the client's base uri. access denied''),
          client\<lparr>baseURICache :=
            cache_Set (baseURICache client) baseURIKey (string_iface uri) 0 now\<rparr>) \<and>
      (\<forall>now2. now2 \<le> now + sint (defaultExpiration (baseURICache client)) \<longrightarrow>
         cache_Get (cache_Set (baseURICache client) baseURIKey (string_iface uri) 0 now)
           baseURIKey now2 = (string_iface uri, True))) \<and>
   (Audience c = Some aud \<and>
    snd (cache_Get (baseURICache client) baseURIKey now) = False \<and>
    h (config client) = Some cfg \<and>
    getClientInformation nr ju client
      (BaseURL cfg @ clientInformationPath (Namespace c) (ClientID cfg)) now =
      (Some err, client') \<longrightarrow>
      ValidateAudience nr ju h client (Some c) now = Some (Some err, client'))"
proof (intro conjI impI allI)
  assume "Audience c = None"
  then show "ValidateAudience nr ju h client (Some c) now = Some (None, client)"
    by (simp add: ValidateAudience_def)
next
  assume "Audience c = Some aud \<and>
    cache_Get (baseURICache client) baseURIKey now = (string_iface uri, True)"
  then show "ValidateAudience nr ju h client (Some c) now =
        Some (if uri \<in> set aud then None
              else Some (errors_New
                ''audience doesn't match the client's base uri. access denied''), client)"
    by (intro ValidateAudience_hit) blast+
next
  assume a: "Audience c = Some aud \<and>
    snd (cache_Get (baseURICache client) baseURIKey now) = False \<and>
    h (config client) = Some cfg \<and>
    nr ''GET'' (BaseURL cfg @ clientInformationPath (Namespace c) (ClientID cfg)) = Inr rq \<and>
    httpClient client (rq\<lparr>Header := Header rq @
       [(''Content-Type'', ''application/json''),
        (''Authorization'', ''Bearer '' @ clientAccessToken client)]\<rparr>) = Inr resp \<and>
    ReadBody resp = Inr body \<and> StatusCode resp = 200 \<and> ju body = Inr uri"
  then show "ValidateAudience nr ju h client (Some c) now =
        Some (if uri \<in> set aud then None
              else Some (errors_New
                ''audience doesn't match the client's base uri. access denied''),
          client\<lparr>baseURICache :=
            cache_Set (baseURICache client) baseURIKey (string_iface uri) 0 now\<rparr>)"
    by (intro ValidateAudience_miss_fetched [where cfg = cfg and rq = rq
          and resp = resp and body = body]) blast+
  fix now2
  assume "now2 \<le> now + sint (defaultExpiration (baseURICache client))"
  then show "cache_Get (cache_Set (baseURICache client) baseURIKey (string_iface uri) 0 now)
           baseURIKey now2 = (string_iface uri, True)"
    by (rule cache_Get_fresh)
next
  assume "Audience c = Some aud \<and>
    snd (cache_Get (baseURICache client) baseURIKey now) = False \<and>
    h (config client) = Some cfg \<and>
    getClientInformation nr ju client
      (BaseURL cfg @ clientInformationPath (Namespace c) (ClientID cfg)) now =
      (Some err, client')"
  then show "ValidateAudience nr ju h client (Some c) now = Some (Some err, client')"
    by (intro ValidateAudience_miss_failed [where cfg = cfg and aud = aud]) blast+
qed

theorem ValidateAudience_cases_witness:
  "ValidateAudience exampleNewRequest exampleUnmarshal exampleStore
     (exampleClient\<lparr>httpClient := exampleServer\<rparr>)
     (Some (exampleClaims\<lparr>Audience :=
        Some [''https://other.example.net'', ''https://app.example.net'']\<rparr>)) 0 =
     Some (None, exampleClient\<lparr>httpClient := exampleServer,
       baseURICache := cache_Set (baseURICache exampleClient) baseURIKey
         (string_iface ''https://app.example.net'') 0 0\<rparr>) \<and>
   ValidateAudience exampleNewRequest exampleUnmarshal exampleStore
     (exampleClient\<lparr>httpClient := exampleServer\<rparr>)
     (Some (exampleClaims\<lparr>Audience := Some [''https://other.example.net'']\<rparr>)) 0 =
     Some (Some (errors_New ''audience doesn't match the client's base uri. access denied''),
       exampleClient\<lparr>httpClient := exampleServer,
       baseURICache := cache_Set (baseURICache exampleClient) baseURIKey
         (string_iface ''https://app.example.net'') 0 0\<rparr>) \<and>
   ValidateAudience exampleNewRequest exampleUnmarshal exampleStore
     (exampleClient\<lparr>baseURICache := cache_Set (baseURICache exampleClient) baseURIKey
         (string_iface ''https://app.example.net'') 0 0\<rparr>)
     (Some (exampleClaims\<lparr>Audience := Some [''https://app.example.net'']\<rparr>))
     (30 * 1000000000) =
     Some (None, exampleClient\<lparr>baseURICache := cache_Set (baseURICache exampleClient)
         baseURIKey (string_iface ''https://app.example.net'') 0 0\<rparr>) \<and>
   ValidateAudience exampleNewRequest exampleUnmarshal exampleStore exampleClient
     (Some (exampleClaims\<lparr>Audience := Some [''https://other.example.net'']\<rparr>)) 0 =
     Some (Some (fmt_Errorf ''unable to do http request: ''
       (errors_New ''connection refused'')), exampleClient) \<and>
   ValidateAudience exampleNewRequest exampleUnmarshal exampleStore exampleClient
     (Some exampleClaims) 0 = Some (None, exampleClient)"
proof -
  let ?client = "exampleClient\<lparr>httpClient := exampleServer\<rparr>"
  let ?url = "BaseURL exampleConfig @
      clientInformationPath (Namespace exampleClaims) (ClientID exampleConfig)"
  let ?rq = "\<lparr>Method = ''GET'', URL = ?url, Header = []\<rparr>"
  let ?resp = "\<lparr>StatusCode = 200, ReadBody = Inr ''app''\<rparr>"
  let ?mismatch = "errors_New ''audience doesn't match the client's base uri. access denied''"
  have fetch: "snd (cache_Get (baseURICache ?client) baseURIKey 0) = False \<and>
      exampleStore (config ?client) = Some exampleConfig \<and>
      exampleNewRequest ''GET'' ?url = Inr ?rq \<and>
      httpClient ?client (?rq\<lparr>Header := Header ?rq @
         [(''Content-Type'', ''application/json''),
          (''Authorization'', ''Bearer '' @ clientAccessToken ?client)]\<rparr>) = Inr ?resp \<and>
      ReadBody ?resp = Inr ''app'' \<and> StatusCode ?resp = 200 \<and>
      exampleUnmarshal ''app'' = Inr ''https://app.example.net''"
    by (simp add: exampleClient_def exampleStore_def exampleNewRequest_def exampleServer_def
        exampleUnmarshal_def cache_Get_def cache_New_def)
  note T = ValidateAudience_cases [where nr = exampleNewRequest and ju = exampleUnmarshal
      and h = exampleStore and client = ?client and now = 0 and cfg = exampleConfig
      and rq = ?rq and resp = ?resp and body = "''app''" and uri = "''https://app.example.net''"]
  let ?c1 = "exampleClaims\<lparr>Audience :=
        Some [''https://other.example.net'', ''https://app.example.net'']\<rparr>"
  let ?c2 = "exampleClaims\<lparr>Audience := Some [''https://other.example.net'']\<rparr>"
  let ?c3 = "exampleClaims\<lparr>Audience := Some [''https://app.example.net'']\<rparr>"
  have one: "ValidateAudience exampleNewRequest exampleUnmarshal exampleStore ?client
      (Some ?c1) 0 =
      Some (if ''https://app.example.net'' \<in>
               set [''https://other.example.net'', ''https://app.example.net''] then None
            else Some ?mismatch,
        ?client\<lparr>baseURICache := cache_Set (baseURICache ?client) baseURIKey
          (string_iface ''https://app.example.net'') 0 0\<rparr>)"
    using fetch
    by (intro T [where c = ?c1
          and aud = "[''https://other.example.net'', ''https://app.example.net'']",
          THEN conjunct2, THEN conjunct2, THEN conjunct1, THEN mp, THEN conjunct1])
       (simp add: exampleClaims_def)
  have two: "ValidateAudience exampleNewRequest exampleUnmarshal exampleStore ?client
      (Some ?c2) 0 =
      Some (if ''https://app.example.net'' \<in> set [''https://other.example.net''] then None
            else Some ?mismatch,
        ?client\<lparr>baseURICache := cache_Set (baseURICache ?client) baseURIKey
          (string_iface ''https://app.example.net'') 0 0\<rparr>)"
    using fetch
    by (intro T [where c = ?c2 and aud = "[''https://other.example.net'']",
          THEN conjunct2, THEN conjunct2, THEN conjunct1, THEN mp, THEN conjunct1])
       (simp add: exampleClaims_def)
  let ?cached = "exampleClient\<lparr>baseURICache := cache_Set (baseURICache exampleClient)
      baseURIKey (string_iface ''https://app.example.net'') 0 0\<rparr>"
  have hit: "Audience ?c3 = Some [''https://app.example.net''] \<and>
      cache_Get (baseURICache ?cached) baseURIKey (30 * 1000000000) =
        (string_iface ''https://app.example.net'', True)"
    by (simp add: exampleClaims_def exampleClient_def cache_Get_def cache_Set_def cache_New_def
        baseURICacheExpiration_def Minute_def Second_def)
  have three: "ValidateAudience exampleNewRequest exampleUnmarshal exampleStore ?cached
      (Some ?c3) (30 * 1000000000) =
      Some (if ''https://app.example.net'' \<in> set [''https://app.example.net''] then None
            else Some ?mismatch, ?cached)"
    using hit
    by (rule ValidateAudience_cases [THEN conjunct2, THEN conjunct1, THEN mp])
  have refused: "Audience ?c2 = Some [''https://other.example.net''] \<and>
      snd (cache_Get (baseURICache exampleClient) baseURIKey 0) = False \<and>
      exampleStore (config exampleClient) = Some exampleConfig \<and>
      getClientInformation exampleNewRequest exampleUnmarshal exampleClient
        (BaseURL exampleConfig @
           clientInformationPath (Namespace ?c2) (ClientID exampleConfig)) 0 =
        (Some (fmt_Errorf ''unable to do http request: ''
           (errors_New ''connection refused'')), exampleClient)"
    by (simp add: exampleClaims_def exampleClient_def exampleStore_def cache_Get_def
        cache_New_def getClientInformation_def exampleNewRequest_def)
  have four: "ValidateAudience exampleNewRequest exampleUnmarshal exampleStore exampleClient
      (Some ?c2) 0 =
      Some (Some (fmt_Errorf ''unable to do http request: ''
        (errors_New ''connection refused'')), exampleClient)"
    using refused
    by (rule ValidateAudience_cases
        [THEN conjunct2, THEN conjunct2, THEN conjunct2, THEN mp])
  have "Audience exampleClaims = None" by (simp add: exampleClaims_def)
  then have five: "ValidateAudience exampleNewRequest exampleUnmarshal exampleStore
      exampleClient (Some exampleClaims) 0 = Some (None, exampleClient)"
    by (rule ValidateAudience_cases [THEN conjunct1, THEN mp])
  from one two three four five show ?thesis by (simp add: exampleClient_def)
qed

text \<open>
  C7, as stated, has the audience-mismatch error for every call with an audience that
  does not succeed. With an empty cache and a server that refuses the connection, the
  call returns the error of the request, although the audience holds the registered base
  URI.
\<close>

theorem ValidateAudience_fetch_error_counterexample:
  "ValidateAudience exampleNewRequest exampleUnmarshal exampleStore exampleClient
     (Some (exampleClaims\<lparr>Audience := Some [''https://app.example.net'']\<rparr>)) 0 =
     Some (Some (fmt_Errorf ''unable to do http request: ''
       (errors_New ''connection refused'')), exampleClient)"
  by (simp add: ValidateAudience_def getClientInformation_def exampleNewRequest_def
      exampleClient_def exampleStore_def cache_Get_def cache_New_def Let_def)

text \<open>
  C10. \<^verbatim>\<open>ValidateAudience\<close> called with nil claims returns the error
  \<^verbatim>\<open>claims is nil\<close>, where \<^verbatim>\<open>ValidatePermission\<close> called with nil claims returns
  false and a nil error.
\<close>

theorem ValidateAudience_nil_claims:
  "ValidateAudience nr ju h client None now = Some (Some (errors_New ''claims is nil''), client) \<and>
   ValidatePermission pa grp aup client None requiredPermission permissionResources =
     ((False, None), client)"
  by (simp add: ValidateAudience_def ValidatePermission_def)

subsection \<open>NewDefaultClient\<close>

text \<open>
  C9. \<^verbatim>\<open>NewDefaultClient\<close> writes to the \<^verbatim>\<open>Config\<close> the caller passed: the client
  keeps the caller's pointer, and in the object it points to each of
  \<^verbatim>\<open>RolesCacheExpirationTime\<close>, \<^verbatim>\<open>JWKSRefreshInterval\<close> and
  \<^verbatim>\<open>RevocationListRefreshInterval\<close> that is not positive becomes 60 seconds. A
  positive duration, the other fields of the object and every other object of the store
  are left as they were.
\<close>

theorem NewDefaultClient_writes_defaults:
  "h p = Some cfg \<Longrightarrow>
   \<exists>h' client cfg'.
     NewDefaultClient vat dh h p = Some (h', client) \<and>
     config client = p \<and> h' p = Some cfg' \<and> (\<forall>q. q \<noteq> p \<longrightarrow> h' q = h q) \<and>
     RolesCacheExpirationTime cfg' =
       (if sint (RolesCacheExpirationTime cfg) \<le> 0 then 60 * Second
        else RolesCacheExpirationTime cfg) \<and>
     JWKSRefreshInterval cfg' =
       (if sint (JWKSRefreshInterval cfg) \<le> 0 then 60 * Second
        else JWKSRefreshInterval cfg) \<and>
     RevocationListRefreshInterval cfg' =
       (if sint (RevocationListRefreshInterval cfg) \<le> 0 then 60 * Second
        else RevocationListRefreshInterval cfg) \<and>
     BaseURL cfg' = BaseURL cfg \<and> ClientID cfg' = ClientID cfg \<and>
     ClientSecret cfg' = ClientSecret cfg"
  by (simp add: NewDefaultClient_def Let_def defaultRoleCacheTime_def
      defaultJWKSRefreshInterval_def defaultRevocationListRefreshInterval_def)

theorem NewDefaultClient_writes_defaults_witness:
  "\<exists>h' client cfg'.
     NewDefaultClient (\<lambda>tok. (False, None)) (\<lambda>req. Inl (errors_New ''connection refused''))
       (exampleStore(2 \<mapsto> exampleConfig\<lparr>JWKSRefreshInterval := 5 * Second\<rparr>)) 2 =
       Some (h', client) \<and>
     config client = 2 \<and> h' 2 = Some cfg' \<and> h' 1 = Some exampleConfig \<and>
     RolesCacheExpirationTime cfg' = 60 * Second \<and>
     JWKSRefreshInterval cfg' = 5 * Second \<and>
     RevocationListRefreshInterval cfg' = 60 * Second \<and>
     BaseURL cfg' = ''https://iam.example.net'' \<and> ClientID cfg' = ''client-1'' \<and>
     ClientSecret cfg' = ''secret''"
proof -
  let ?cfg = "exampleConfig\<lparr>JWKSRefreshInterval := 5 * Second\<rparr>"
  let ?h = "exampleStore(2 \<mapsto> ?cfg)"
  have "?h 2 = Some ?cfg" by simp
  with NewDefaultClient_writes_defaults [where h = ?h and p = 2 and cfg = ?cfg
      and vat = "\<lambda>tok. (False, None)"
      and dh = "\<lambda>req. Inl (errors_New ''connection refused'')"]
  obtain h' client cfg' where
    r: "NewDefaultClient (\<lambda>tok. (False, None)) (\<lambda>req. Inl (errors_New ''connection refused''))
       ?h 2 = Some (h', client)"
      "config client = 2" "h' 2 = Some cfg'" "\<forall>q. q \<noteq> 2 \<longrightarrow> h' q = ?h q"
      "RolesCacheExpirationTime cfg' =
         (if sint (RolesCacheExpirationTime ?cfg) \<le> 0 then 60 * Second
          else RolesCacheExpirationTime ?cfg)"
      "JWKSRefreshInterval cfg' =
         (if sint (JWKSRefreshInterval ?cfg) \<le> 0 then 60 * Second
          else JWKSRefreshInterval ?cfg)"
      "RevocationListRefreshInterval cfg' =
         (if sint (RevocationListRefreshInterval ?cfg) \<le> 0 then 60 * Second
          else RevocationListRefreshInterval ?cfg)"
      "BaseURL cfg' = BaseURL ?cfg" "ClientID cfg' = ClientID ?cfg"
      "ClientSecret cfg' = ClientSecret ?cfg"
    by blast
  from r(4) have "h' 1 = Some exampleConfig" by (simp add: exampleStore_def)
  moreover from r(5) have "RolesCacheExpirationTime cfg' = 60 * Second"
    by (simp add: exampleConfig_def)
  moreover from r(6) have "JWKSRefreshInterval cfg' = 5 * Second"
    by (simp add: exampleConfig_def Second_def)
  moreover from r(7) have "RevocationListRefreshInterval cfg' = 60 * Second"
    by (simp add: exampleConfig_def)
  moreover from r(8-10) have "BaseURL cfg' = ''https://iam.example.net'' \<and>
      ClientID cfg' = ''client-1'' \<and> ClientSecret cfg' = ''secret''"
    by (simp add: exampleConfig_def)
  ultimately show ?thesis using r(1-3) by blast
qed

end
